theory Spec2Isabelle
  imports Complex_Main
begin

section \<open>The notebook's data and the result type\<close>

text \<open>
  The notebook computes with double precision numbers; the embedding computes with the
  real and complex numbers they approximate, so every equation below is one of exact
  arithmetic. The arrays are numpy arrays of dtype complex, modelled as lists of complex
  numbers.

  Two kinds of division occur in the source and they fail differently.
  \<^item> \<open>... * np.pi / self.model.beta\<close> divides a Python complex (or a Python float, in
    the frequency grid) by the Python float \<open>beta\<close>: for \<open>beta = 0\<close> Python raises
    ZeroDivisionError. This is the branch \<open>Inl ZeroDivisionError\<close> of \<open>iwn\<close> and
    \<open>py_truediv\<close>.
  \<^item> \<open>1.0/(...)\<close> with an element of a numpy array in the divisor is numpy's division
    of a complex128 scalar: it never raises (a zero divisor gives a non-finite value
    and a warning). It is modelled by the total division of HOL, whose value at a
    zero divisor is not the program's.
  Reading \<open>self.model.hyb[n]\<close> beyond the end of the array raises IndexError.
\<close>

datatype py_error = ZeroDivisionError | IndexError

record Model =
  t :: real
  beta :: real
  U :: real
  hyb :: "complex list"

text \<open>
  \<open>scipy.integrate.dblquad(func, a, b, gfun, hfun)\<close> is not code of the notebook: it is a
  parameter of every function that calls it. It integrates \<open>func y x\<close> for \<open>x\<close> from \<open>a\<close>
  to \<open>b\<close> and \<open>y\<close> from \<open>gfun x\<close> to \<open>hfun x\<close>; the component \<open>[0]\<close> that the notebook
  reads is the value. It is taken to return a value on every integrand.
\<close>

type_synonym quadrature =
  "(real \<Rightarrow> real \<Rightarrow> real) \<Rightarrow> real \<Rightarrow> real \<Rightarrow> (real \<Rightarrow> real) \<Rightarrow> (real \<Rightarrow> real) \<Rightarrow> real"

section \<open>The dispersion relation and the first moment\<close>

definition eps_k :: "real \<Rightarrow> real \<Rightarrow> real" where
  "eps_k kx ky = - 2 * (cos kx + cos ky)"

definition get_hyb_fm :: "quadrature \<Rightarrow> real" where
  "get_hyb_fm dblquad =
     (let kx_limit_low = - pi;
          kx_limit_high = pi;
          ky_limit_low = (\<lambda>kx. - pi);
          ky_limit_high = (\<lambda>kx. pi);
          int_eps_k = dblquad eps_k kx_limit_low kx_limit_high ky_limit_low ky_limit_high;
          eps_k_squared = (\<lambda>kx ky. eps_k kx ky * eps_k kx ky);
          int_eps_k_squared =
            dblquad eps_k_squared kx_limit_low kx_limit_high ky_limit_low ky_limit_high
      in 1 / (2 * pi) powr 2 * (int_eps_k_squared - int_eps_k))"

definition Model_eps_k :: "Model \<Rightarrow> real \<Rightarrow> real \<Rightarrow> real" where
  "Model_eps_k self kx ky = - 2 * t self * (cos kx + cos ky)"

section \<open>Matsubara frequencies and the loops over them\<close>

text \<open>The value of \<open>1.0j * (2.0 * n + 1.0) * np.pi / beta\<close> where the division succeeds.\<close>

definition iwn_val :: "real \<Rightarrow> nat \<Rightarrow> complex" where
  "iwn_val b n =
     \<i> * complex_of_real (2 * real n + 1) * complex_of_real pi / complex_of_real b"

definition iwn :: "real \<Rightarrow> nat \<Rightarrow> py_error + complex" where
  "iwn b n = (if b = 0 then Inl ZeroDivisionError else Inr (iwn_val b n))"

text \<open>
  Every loop of the two classes is \<open>for n in range(arr.shape[0]): arr[n] = body(n)\<close> on
  an array allocated just before; an exception in the body leaves the loop.
\<close>

fun for_range :: "(nat \<Rightarrow> py_error + complex) \<Rightarrow> nat list \<Rightarrow> complex list \<Rightarrow> py_error + complex list" where
  "for_range body [] arr = Inr arr"
| "for_range body (n # ns) arr =
     (case body n of
        Inl e \<Rightarrow> Inl e
      | Inr v \<Rightarrow> for_range body ns (arr[n := v]))"

section \<open>ImpuritySolver\<close>

text \<open>The object holds the model only, so \<open>solve\<close> takes the model.\<close>

definition ImpuritySolver_solve :: "Model \<Rightarrow> py_error + complex list" where
  "ImpuritySolver_solve model =
     (let green_impurity = replicate (length (hyb model)) (0 :: complex);
          self_energy =
            map (\<lambda>one. complex_of_real (U model / 2) * one)
              (replicate (length green_impurity) (1 :: complex))
      in for_range
           (\<lambda>n. case iwn (beta model) n of
                   Inl e \<Rightarrow> Inl e
                 | Inr w \<Rightarrow> Inr (1 / (w - hyb model ! n - self_energy ! n)))
           [0 ..< length green_impurity] green_impurity)"

section \<open>SelfConsistency\<close>

text \<open>
  The object holds \<open>model\<close> and \<open>green_impurity\<close>; the methods take both. The two
  integrands are called by the quadrature, after the first loop of
  \<open>run_selfconsistency\<close> has computed \<open>iwn\<close> with the same \<open>beta\<close>, so their division by
  \<open>beta\<close> has succeeded whenever they are reached.
\<close>

definition green_lattice_scalar_real :: "Model \<Rightarrow> real \<Rightarrow> real \<Rightarrow> complex list \<Rightarrow> nat \<Rightarrow> real" where
  "green_lattice_scalar_real model kx ky self_energy n =
     Re (1 / (iwn_val (beta model) n - complex_of_real (Model_eps_k model kx ky) - self_energy ! n))"

definition green_lattice_scalar_imag :: "Model \<Rightarrow> real \<Rightarrow> real \<Rightarrow> complex list \<Rightarrow> nat \<Rightarrow> real" where
  "green_lattice_scalar_imag model kx ky self_energy n =
     Im (1 / (iwn_val (beta model) n - complex_of_real (Model_eps_k model kx ky) - self_energy ! n))"

text \<open>Step 0 of \<open>run_selfconsistency\<close>: the self-energy extracted from \<open>green_impurity\<close>.\<close>

definition extract_self_energy :: "Model \<Rightarrow> complex list \<Rightarrow> py_error + complex list" where
  "extract_self_energy model green_impurity =
     (let self_energy = replicate (length green_impurity) (0 :: complex)
      in for_range
           (\<lambda>n. case iwn (beta model) n of
                   Inl e \<Rightarrow> Inl e
                 | Inr w \<Rightarrow>
                     if n < length (hyb model)
                     then Inr (w - hyb model ! n - 1 / green_impurity ! n)
                     else Inl IndexError)
           [0 ..< length green_impurity] self_energy)"

text \<open>
  Step 1: the lattice Green's function. The body assigns the quadrature of the real
  part, adds \<open>1.0j\<close> times the quadrature of the imaginary part and divides by
  \<open>(2.0*np.pi)**2.0\<close>, all three on \<open>green_impurity_new[n]\<close>.
\<close>

definition lattice_green_impurity :: "quadrature \<Rightarrow> Model \<Rightarrow> complex list \<Rightarrow> complex list \<Rightarrow> py_error + complex list" where
  "lattice_green_impurity dblquad model green_impurity self_energy =
     (let green_impurity_new = replicate (length green_impurity) (0 :: complex);
          kx_limit_low = - pi;
          kx_limit_high = pi;
          ky_limit_low = (\<lambda>kx. - pi);
          ky_limit_high = (\<lambda>kx. pi)
      in for_range
           (\<lambda>n. let g0 = complex_of_real
                          (dblquad (\<lambda>kx ky. green_lattice_scalar_real model kx ky self_energy n)
                             kx_limit_low kx_limit_high ky_limit_low ky_limit_high);
                     g1 = g0 + \<i> * complex_of_real
                          (dblquad (\<lambda>kx ky. green_lattice_scalar_imag model kx ky self_energy n)
                             kx_limit_low kx_limit_high ky_limit_low ky_limit_high);
                     g2 = g1 / complex_of_real ((2 * pi) powr 2)
                 in Inr g2)
           [0 ..< length green_impurity_new] green_impurity_new)"

text \<open>Step 2: the new hybridization.\<close>

definition extract_hyb :: "Model \<Rightarrow> complex list \<Rightarrow> complex list \<Rightarrow> complex list \<Rightarrow> py_error + complex list" where
  "extract_hyb model green_impurity self_energy green_impurity_new =
     (let hyb_new = replicate (length green_impurity) (0 :: complex)
      in for_range
           (\<lambda>n. case iwn (beta model) n of
                   Inl e \<Rightarrow> Inl e
                 | Inr w \<Rightarrow> Inr (w - 1 / green_impurity_new ! n - self_energy ! n))
           [0 ..< length hyb_new] hyb_new)"

definition run_selfconsistency :: "quadrature \<Rightarrow> Model \<Rightarrow> complex list \<Rightarrow> py_error + complex list" where
  "run_selfconsistency dblquad model green_impurity =
     (case extract_self_energy model green_impurity of
        Inl e \<Rightarrow> Inl e
      | Inr self_energy \<Rightarrow>
          (case lattice_green_impurity dblquad model green_impurity self_energy of
             Inl e \<Rightarrow> Inl e
           | Inr green_impurity_new \<Rightarrow>
               extract_hyb model green_impurity self_energy green_impurity_new))"

section \<open>The driver\<close>

text \<open>
  \<open>main\<close> fixes its five parameters in its first lines; \<open>run_main\<close> is its body with the
  parameters as arguments, and \<open>main\<close> is \<open>run_main\<close> at the values of the source. The
  body of the loop builds the model from the current hybridization, solves the impurity
  and runs the self-consistency; the dot it prints is not modelled. The two copies of
  the notebook differ in one of the five values: \<open>beta = 100.0\<close> in the one followed
  here, \<open>beta = 10.0\<close> in the other.
\<close>

definition dmft_iteration :: "quadrature \<Rightarrow> real \<Rightarrow> real \<Rightarrow> real \<Rightarrow> complex list \<Rightarrow> py_error + complex list" where
  "dmft_iteration dblquad t0 beta0 U0 hyb0 =
     (let model = \<lparr>t = t0, beta = beta0, U = U0, hyb = hyb0\<rparr>
      in case ImpuritySolver_solve model of
           Inl e \<Rightarrow> Inl e
         | Inr green_impurity \<Rightarrow> run_selfconsistency dblquad model green_impurity)"

primrec main_loop :: "quadrature \<Rightarrow> real \<Rightarrow> real \<Rightarrow> real \<Rightarrow> nat \<Rightarrow> complex list \<Rightarrow> py_error + complex list" where
  "main_loop dblquad t0 beta0 U0 0 hyb0 = Inr hyb0"
| "main_loop dblquad t0 beta0 U0 (Suc ii) hyb0 =
     (case dmft_iteration dblquad t0 beta0 U0 hyb0 of
        Inl e \<Rightarrow> Inl e
      | Inr hyb1 \<Rightarrow> main_loop dblquad t0 beta0 U0 ii hyb1)"

definition py_truediv :: "real \<Rightarrow> real \<Rightarrow> py_error + real" where
  "py_truediv a b = (if b = 0 then Inl ZeroDivisionError else Inr (a / b))"

text \<open>A list comprehension whose element expression may raise.\<close>

fun comprehension :: "(nat \<Rightarrow> py_error + real) \<Rightarrow> nat list \<Rightarrow> py_error + real list" where
  "comprehension f [] = Inr []"
| "comprehension f (n # ns) =
     (case f n of
        Inl e \<Rightarrow> Inl e
      | Inr v \<Rightarrow> (case comprehension f ns of Inl e \<Rightarrow> Inl e | Inr vs \<Rightarrow> Inr (v # vs)))"

definition run_main :: "quadrature \<Rightarrow> nat \<Rightarrow> real \<Rightarrow> real \<Rightarrow> real \<Rightarrow> nat \<Rightarrow> py_error + (real list \<times> complex list)" where
  "run_main dblquad n_freq t0 beta0 U0 iter_max =
     (case main_loop dblquad t0 beta0 U0 iter_max (replicate n_freq (0 :: complex)) of
        Inl e \<Rightarrow> Inl e
      | Inr hyb_final \<Rightarrow>
          (case comprehension (\<lambda>n. py_truediv ((2 * real n + 1) * pi) beta0) [0 ..< n_freq] of
             Inl e \<Rightarrow> Inl e
           | Inr frequencies \<Rightarrow> Inr (frequencies, hyb_final)))"

definition main :: "quadrature \<Rightarrow> py_error + (real list \<times> complex list)" where
  "main dblquad = run_main dblquad 200 (- 1) 100 0 5"

section \<open>The formulas of the specification\<close>

text \<open>
  The closed forms as the specification writes them, one Matsubara index at a time, to
  compare the loops of the source with. \<open>bz_quad\<close> is the quadrature over the
  Brillouin zone \<open>[-pi, pi] x [-pi, pi]\<close>.
\<close>

definition spec_iw :: "real \<Rightarrow> nat \<Rightarrow> complex" where
  "spec_iw b n = \<i> * complex_of_real ((2 * real n + 1) * pi / b)"

definition bz_quad :: "quadrature \<Rightarrow> (real \<Rightarrow> real \<Rightarrow> real) \<Rightarrow> real" where
  "bz_quad dblquad f = dblquad f (- pi) pi (\<lambda>kx. - pi) (\<lambda>kx. pi)"

definition spec_G_imp :: "real \<Rightarrow> real \<Rightarrow> complex list \<Rightarrow> nat \<Rightarrow> complex" where
  "spec_G_imp b u h n = 1 / (spec_iw b n - h ! n - complex_of_real (u / 2))"

definition spec_Sigma :: "real \<Rightarrow> complex list \<Rightarrow> complex list \<Rightarrow> nat \<Rightarrow> complex" where
  "spec_Sigma b h g n = spec_iw b n - h ! n - 1 / g ! n"

definition spec_g :: "real \<Rightarrow> real \<Rightarrow> complex \<Rightarrow> nat \<Rightarrow> real \<Rightarrow> real \<Rightarrow> complex" where
  "spec_g hop b sigma n kx ky =
     1 / (spec_iw b n - complex_of_real (- 2 * hop * (cos kx + cos ky)) - sigma)"

definition spec_G_new :: "quadrature \<Rightarrow> real \<Rightarrow> real \<Rightarrow> complex \<Rightarrow> nat \<Rightarrow> complex" where
  "spec_G_new dblquad hop b sigma n =
     complex_of_real (1 / (2 * pi) ^ 2) *
       (complex_of_real (bz_quad dblquad (\<lambda>kx ky. Re (spec_g hop b sigma n kx ky)))
        + \<i> * complex_of_real (bz_quad dblquad (\<lambda>kx ky. Im (spec_g hop b sigma n kx ky))))"

definition spec_hyb_new :: "quadrature \<Rightarrow> real \<Rightarrow> real \<Rightarrow> complex list \<Rightarrow> complex list \<Rightarrow> nat \<Rightarrow> complex" where
  "spec_hyb_new dblquad hop b h g n =
     spec_iw b n - 1 / spec_G_new dblquad hop b (spec_Sigma b h g n) n - spec_Sigma b h g n"

text \<open>The one-step map of the iteration: the impurity solver followed by the update.\<close>

definition spec_step :: "quadrature \<Rightarrow> real \<Rightarrow> real \<Rightarrow> real \<Rightarrow> complex list \<Rightarrow> complex list" where
  "spec_step dblquad hop b u h =
     map (spec_hyb_new dblquad hop b h (map (spec_G_imp b u h) [0 ..< length h]))
       [0 ..< length h]"

section \<open>Exact integration\<close>

text \<open>
  What it means for a number to be the exact value of the integrals the quadrature
  approximates, stated with antiderivatives: \<open>v\<close> is the integral of \<open>f\<close> from \<open>a\<close> to
  \<open>b\<close> when \<open>f\<close> has an antiderivative \<open>F\<close> on the real line and \<open>v = F b - F a\<close>; the
  double integral integrates \<open>func y x\<close> over \<open>y\<close> first, between \<open>gfun x\<close> and \<open>hfun x\<close>,
  and the result over \<open>x\<close> from \<open>a\<close> to \<open>b\<close>.
\<close>

definition integral_value :: "(real \<Rightarrow> real) \<Rightarrow> real \<Rightarrow> real \<Rightarrow> real \<Rightarrow> bool" where
  "integral_value f a b v \<longleftrightarrow>
     (\<exists>F. (\<forall>x. (F has_field_derivative f x) (at x)) \<and> v = F b - F a)"

definition double_integral_value :: "(real \<Rightarrow> real \<Rightarrow> real) \<Rightarrow> real \<Rightarrow> real \<Rightarrow> (real \<Rightarrow> real) \<Rightarrow> (real \<Rightarrow> real) \<Rightarrow> real \<Rightarrow> bool" where
  "double_integral_value func a b gfun hfun v \<longleftrightarrow>
     (\<exists>inner. (\<forall>x. integral_value (\<lambda>y. func y x) (gfun x) (hfun x) (inner x))
        \<and> integral_value inner a b v)"

text \<open>A quadrature is exact on an integrand over the Brillouin zone.\<close>

definition exact_on :: "quadrature \<Rightarrow> (real \<Rightarrow> real \<Rightarrow> real) \<Rightarrow> bool" where
  "exact_on dblquad f \<longleftrightarrow>
     double_integral_value f (- pi) pi (\<lambda>kx. - pi) (\<lambda>kx. pi) (bz_quad dblquad f)"

text \<open>
  A quadrature to run the functions on: the midpoint rule with one sample, at the
  centre of the domain.
\<close>

definition midpoint_rule :: quadrature where
  "midpoint_rule func a b gfun hfun =
     (let x = (a + b) / 2; y = (gfun x + hfun x) / 2
      in (b - a) * (hfun x - gfun x) * func y x)"

section \<open>The loops compute the closed forms\<close>

text \<open>
  A loop that fills an array of length \<open>N\<close> over \<open>range(N)\<close> with a body that does not
  raise returns the list of the body's values; a body that raises at an index leaves
  the loop with that error.
\<close>

lemma for_range_fold:
  "(\<And>n. n \<in> set ns \<Longrightarrow> body n = Inr (f n)) \<Longrightarrow>
   for_range body ns arr = Inr (fold (\<lambda>n a. a[n := f n]) ns arr)"
  by (induction ns arbitrary: arr) simp_all

lemma length_fold_update:
  "length (fold (\<lambda>n a. a[n := f n]) ns arr) = length arr"
  by (induction ns arbitrary: arr) simp_all

lemma nth_fold_update:
  "i < length arr \<Longrightarrow>
   fold (\<lambda>n a. a[n := f n]) ns arr ! i = (if i \<in> set ns then f i else arr ! i)"
  by (induction ns arbitrary: arr) (auto simp: nth_list_update)

lemma fold_update_upt:
  assumes "length arr = N"
  shows "fold (\<lambda>n a. a[n := f n]) [0 ..< N] arr = map f [0 ..< N]"
proof (rule nth_equalityI)
  show "length (fold (\<lambda>n a. a[n := f n]) [0 ..< N] arr) = length (map f [0 ..< N])"
    using assms by (simp add: length_fold_update)
next
  fix i
  assume "i < length (fold (\<lambda>n a. a[n := f n]) [0 ..< N] arr)"
  then have i: "i < N"
    using assms by (simp add: length_fold_update)
  then show "fold (\<lambda>n a. a[n := f n]) [0 ..< N] arr ! i = map f [0 ..< N] ! i"
    using assms by (simp add: nth_fold_update)
qed

lemma for_range_fill:
  assumes "length arr = N" and "\<And>n. n < N \<Longrightarrow> body n = Inr (f n)"
  shows "for_range body [0 ..< N] arr = Inr (map f [0 ..< N])"
proof -
  have "for_range body [0 ..< N] arr = Inr (fold (\<lambda>n a. a[n := f n]) [0 ..< N] arr)"
    by (rule for_range_fold) (simp add: assms(2))
  then show ?thesis
    by (simp add: fold_update_upt [OF assms(1)])
qed

lemma for_range_first_error:
  "(\<And>x. x \<in> set xs \<Longrightarrow> body x = Inr (f x)) \<Longrightarrow> body n = Inl e \<Longrightarrow>
   for_range body (xs @ n # ys) arr = Inl e"
  by (induction xs arbitrary: arr) simp_all

lemma iwn_val_spec: "iwn_val b n = spec_iw b n"
  by (simp add: iwn_val_def spec_iw_def)

lemma iwn_ok: "b \<noteq> 0 \<Longrightarrow> iwn b n = Inr (spec_iw b n)"
  by (simp add: iwn_def iwn_val_spec)

lemma solve_eq:
  assumes "beta model \<noteq> 0"
  shows "ImpuritySolver_solve model =
         Inr (map (spec_G_imp (beta model) (U model) (hyb model)) [0 ..< length (hyb model)])"
  unfolding ImpuritySolver_solve_def Let_def length_replicate
  by (rule for_range_fill) (simp_all add: iwn_ok [OF assms] spec_G_imp_def)

lemma extract_self_energy_eq:
  assumes "beta model \<noteq> 0" and "length g \<le> length (hyb model)"
  shows "extract_self_energy model g =
         Inr (map (spec_Sigma (beta model) (hyb model) g) [0 ..< length g])"
  unfolding extract_self_energy_def Let_def
  by (rule for_range_fill) (use assms in \<open>simp_all add: iwn_ok spec_Sigma_def\<close>)

lemma two_pi_powr: "(2 * pi) powr 2 = (2 * pi) ^ 2"
  by simp

lemma green_lattice_scalar_real_spec:
  "(\<lambda>kx ky. green_lattice_scalar_real model kx ky s n) =
   (\<lambda>kx ky. Re (spec_g (t model) (beta model) (s ! n) n kx ky))"
  by (simp add: green_lattice_scalar_real_def spec_g_def iwn_val_spec Model_eps_k_def)

lemma green_lattice_scalar_imag_spec:
  "(\<lambda>kx ky. green_lattice_scalar_imag model kx ky s n) =
   (\<lambda>kx ky. Im (spec_g (t model) (beta model) (s ! n) n kx ky))"
  by (simp add: green_lattice_scalar_imag_def spec_g_def iwn_val_spec Model_eps_k_def)

lemma lattice_green_impurity_eq:
  "lattice_green_impurity dblquad model g s =
   Inr (map (\<lambda>n. spec_G_new dblquad (t model) (beta model) (s ! n) n) [0 ..< length g])"
  unfolding lattice_green_impurity_def Let_def length_replicate
  by (rule for_range_fill)
     (simp_all add: green_lattice_scalar_real_spec green_lattice_scalar_imag_spec
        spec_G_new_def bz_quad_def two_pi_powr)

lemma extract_hyb_eq:
  assumes "beta model \<noteq> 0"
  shows "extract_hyb model g s gn =
         Inr (map (\<lambda>n. spec_iw (beta model) n - 1 / gn ! n - s ! n) [0 ..< length g])"
  unfolding extract_hyb_def Let_def length_replicate
  by (rule for_range_fill) (simp_all add: iwn_ok [OF assms])

lemma run_selfconsistency_eq:
  assumes "beta model \<noteq> 0" and "length g \<le> length (hyb model)"
  shows "run_selfconsistency dblquad model g =
         Inr (map (spec_hyb_new dblquad (t model) (beta model) (hyb model) g) [0 ..< length g])"
  by (simp add: run_selfconsistency_def extract_self_energy_eq [OF assms]
        lattice_green_impurity_eq extract_hyb_eq [OF assms(1)] spec_hyb_new_def)

lemma dmft_iteration_eq:
  assumes "b \<noteq> 0"
  shows "dmft_iteration dblquad hop b u h = Inr (spec_step dblquad hop b u h)"
  using assms
  by (simp add: dmft_iteration_def solve_eq run_selfconsistency_eq spec_step_def)

lemma length_spec_step: "length (spec_step dblquad hop b u h) = length h"
  by (simp add: spec_step_def)

lemma length_spec_step_funpow: "length ((spec_step dblquad hop b u ^^ k) h) = length h"
  by (induction k) (simp_all add: length_spec_step)

lemma main_loop_eq:
  assumes "b \<noteq> 0"
  shows "main_loop dblquad hop b u k h = Inr ((spec_step dblquad hop b u ^^ k) h)"
  by (induction k arbitrary: h) (simp_all add: dmft_iteration_eq [OF assms] funpow_swap1)

lemma comprehension_eq:
  assumes "b \<noteq> 0"
  shows "comprehension (\<lambda>n. py_truediv (f n) b) ns = Inr (map (\<lambda>n. f n / b) ns)"
  by (induction ns) (simp_all add: py_truediv_def assms)

lemma run_main_eq:
  assumes "b \<noteq> 0"
  shows "run_main dblquad N hop b u k =
         Inr (map (\<lambda>n. (2 * real n + 1) * pi / b) [0 ..< N],
              (spec_step dblquad hop b u ^^ k) (replicate N 0))"
  by (simp add: run_main_def main_loop_eq [OF assms] comprehension_eq [OF assms])

section \<open>The two integrals of the first moment\<close>

text \<open>
  An integral has at most one value, and the integrals of the dispersion and of its
  square over the Brillouin zone are \<open>0\<close> and \<open>16 pi^2\<close>.
\<close>

lemma integral_value_unique:
  assumes "integral_value f a b v" and "integral_value f a b w"
  shows "v = w"
proof -
  from assms(1) obtain F where F: "\<And>x. (F has_field_derivative f x) (at x)" and v: "v = F b - F a"
    unfolding integral_value_def by blast
  from assms(2) obtain G where G: "\<And>x. (G has_field_derivative f x) (at x)" and w: "w = G b - G a"
    unfolding integral_value_def by blast
  have "\<And>x. ((\<lambda>x. F x - G x) has_field_derivative 0) (at x)"
    using DERIV_diff [OF F G] by simp
  then have "F b - G b = F a - G a"
    using DERIV_isconst_all [of "\<lambda>x. F x - G x" b a] by blast
  then show ?thesis
    using v w by simp
qed

lemma double_integral_value_unique:
  assumes "double_integral_value func a b gfun hfun v"
      and "double_integral_value func a b gfun hfun w"
  shows "v = w"
proof -
  from assms(1) obtain i1 where
    i1: "\<And>x. integral_value (\<lambda>y. func y x) (gfun x) (hfun x) (i1 x)" and v: "integral_value i1 a b v"
    unfolding double_integral_value_def by blast
  from assms(2) obtain i2 where
    i2: "\<And>x. integral_value (\<lambda>y. func y x) (gfun x) (hfun x) (i2 x)" and w: "integral_value i2 a b w"
    unfolding double_integral_value_def by blast
  have "i1 = i2"
    by (rule ext) (rule integral_value_unique [OF i1 i2])
  then show ?thesis
    using v w integral_value_unique by blast
qed

lemma integral_eps_k_inner:
  "integral_value (\<lambda>y. eps_k y x) (- pi) pi (- 4 * pi * cos x)"
  unfolding integral_value_def
proof (intro exI conjI allI)
  fix y
  show "((\<lambda>y. - 2 * (sin y + y * cos x)) has_field_derivative eps_k y x) (at y)"
    unfolding eps_k_def
    by (auto intro!: derivative_eq_intros)
  show "- 4 * pi * cos x = - 2 * (sin pi + pi * cos x) - - 2 * (sin (- pi) + - pi * cos x)"
    by simp
qed

lemma integral_eps_k_outer:
  "integral_value (\<lambda>x. - 4 * pi * cos x) (- pi) pi 0"
  unfolding integral_value_def
proof (intro exI conjI allI)
  fix x
  show "((\<lambda>x. - 4 * pi * sin x) has_field_derivative - 4 * pi * cos x) (at x)"
    by (auto intro!: derivative_eq_intros)
  show "0 = - 4 * pi * sin pi - - 4 * pi * sin (- pi)"
    by simp
qed

lemma double_integral_eps_k:
  "double_integral_value eps_k (- pi) pi (\<lambda>kx. - pi) (\<lambda>kx. pi) 0"
  unfolding double_integral_value_def
  by (rule exI [of _ "\<lambda>x. - 4 * pi * cos x"])
     (intro conjI allI integral_eps_k_inner integral_eps_k_outer)

lemma integral_eps_k_squared_inner:
  "integral_value (\<lambda>y. eps_k y x * eps_k y x) (- pi) pi (4 * pi + 8 * pi * (cos x)\<^sup>2)"
  unfolding integral_value_def
proof (intro exI conjI allI)
  fix y
  have "((\<lambda>y. 4 * ((y + sin y * cos y) / 2 + 2 * sin y * cos x + y * (cos x)\<^sup>2))
          has_field_derivative
          4 * ((1 + (cos y * cos y - sin y * sin y)) / 2 + 2 * cos y * cos x + (cos x)\<^sup>2)) (at y)"
    by (auto intro!: derivative_eq_intros)
  moreover have "4 * ((1 + (cos y * cos y - sin y * sin y)) / 2 + 2 * cos y * cos x + (cos x)\<^sup>2)
                 = eps_k y x * eps_k y x"
  proof -
    have "1 + (cos y * cos y - sin y * sin y) = 2 * (cos y * cos y)"
      using sin_cos_squared_add [of y] by (simp add: power2_eq_square)
    then show ?thesis
      unfolding eps_k_def by (simp only:) (simp add: power2_eq_square algebra_simps)
  qed
  ultimately show "((\<lambda>y. 4 * ((y + sin y * cos y) / 2 + 2 * sin y * cos x + y * (cos x)\<^sup>2))
          has_field_derivative eps_k y x * eps_k y x) (at y)"
    by simp
  show "4 * pi + 8 * pi * (cos x)\<^sup>2 =
        4 * ((pi + sin pi * cos pi) / 2 + 2 * sin pi * cos x + pi * (cos x)\<^sup>2)
        - 4 * ((- pi + sin (- pi) * cos (- pi)) / 2 + 2 * sin (- pi) * cos x + - pi * (cos x)\<^sup>2)"
    by simp
qed

lemma integral_eps_k_squared_outer:
  "integral_value (\<lambda>x. 4 * pi + 8 * pi * (cos x)\<^sup>2) (- pi) pi (16 * pi\<^sup>2)"
  unfolding integral_value_def
proof (intro exI conjI allI)
  fix x
  have "((\<lambda>x. 4 * pi * x + 4 * pi * (x + sin x * cos x))
          has_field_derivative
          4 * pi + 4 * pi * (1 + (cos x * cos x - sin x * sin x))) (at x)"
    by (auto intro!: derivative_eq_intros)
  moreover have "4 * pi + 4 * pi * (1 + (cos x * cos x - sin x * sin x)) = 4 * pi + 8 * pi * (cos x)\<^sup>2"
  proof -
    have "1 + (cos x * cos x - sin x * sin x) = 2 * (cos x * cos x)"
      using sin_cos_squared_add [of x] by (simp add: power2_eq_square)
    then show ?thesis
      by (simp only:) (simp add: power2_eq_square algebra_simps)
  qed
  ultimately show "((\<lambda>x. 4 * pi * x + 4 * pi * (x + sin x * cos x))
          has_field_derivative 4 * pi + 8 * pi * (cos x)\<^sup>2) (at x)"
    by simp
  show "16 * pi\<^sup>2 = 4 * pi * pi + 4 * pi * (pi + sin pi * cos pi)
        - (4 * pi * - pi + 4 * pi * (- pi + sin (- pi) * cos (- pi)))"
    by (simp add: power2_eq_square)
qed

lemma double_integral_eps_k_squared:
  "double_integral_value (\<lambda>kx ky. eps_k kx ky * eps_k kx ky) (- pi) pi (\<lambda>kx. - pi) (\<lambda>kx. pi)
     (16 * pi\<^sup>2)"
  unfolding double_integral_value_def
  by (rule exI [of _ "\<lambda>x. 4 * pi + 8 * pi * (cos x)\<^sup>2"])
     (intro conjI allI integral_eps_k_squared_inner integral_eps_k_squared_outer)

section \<open>Facts used to run the functions on concrete inputs\<close>

lemma bz_quad_midpoint_rule: "bz_quad midpoint_rule f = (2 * pi) ^ 2 * f 0 0"
  by (simp add: bz_quad_def midpoint_rule_def power2_eq_square)

lemma singleton_list: "length xs = 1 \<Longrightarrow> xs = [xs ! 0]"
  by (cases xs) simp_all

lemma spec_G_new_midpoint_rule:
  "spec_G_new midpoint_rule hop b sigma n = spec_g hop b sigma n 0 0"
proof -
  have "complex_of_real (1 / (2 * pi) ^ 2) *
          (complex_of_real ((2 * pi) ^ 2 * Re z) + \<i> * complex_of_real ((2 * pi) ^ 2 * Im z)) = z"
    for z :: complex
  proof -
    have "complex_of_real (1 / (2 * pi) ^ 2) *
          (complex_of_real ((2 * pi) ^ 2 * Re z) + \<i> * complex_of_real ((2 * pi) ^ 2 * Im z))
          = complex_of_real (Re z) + \<i> * complex_of_real (Im z)"
      by (simp add: algebra_simps)
    then show ?thesis
      by (simp add: complex_eq [symmetric])
  qed
  then show ?thesis
    by (simp add: spec_G_new_def bz_quad_midpoint_rule)
qed

lemma i_minus_4_nonzero: "\<i> - 4 \<noteq> 0"
proof
  assume "\<i> - 4 = 0"
  then have "Im (\<i> - 4) = Im 0" by (rule arg_cong)
  then show False by simp
qed

lemma Im_spec_iw: "Im (spec_iw b n) = (2 * real n + 1) * pi / b"
  by (simp add: spec_iw_def)

lemma spec_step_midpoint_example:
  assumes "Im c = 0"
  shows "spec_step midpoint_rule (- 1) 100 0 [c] = [4]"
proof -
  have d: "spec_iw 100 0 - c \<noteq> 0"
  proof
    assume "spec_iw 100 0 - c = 0"
    then have "Im (spec_iw 100 0 - c) = Im 0" by (rule arg_cong)
    then show False using assms by (simp add: Im_spec_iw)
  qed
  have d4: "spec_iw 100 0 - 4 \<noteq> 0"
  proof
    assume "spec_iw 100 0 - 4 = 0"
    then have "Im (spec_iw 100 0 - 4) = Im 0" by (rule arg_cong)
    then show False by (simp add: Im_spec_iw)
  qed
  have s: "spec_Sigma 100 [c] [spec_G_imp 100 0 [c] 0] 0 = 0"
    using d by (simp add: spec_Sigma_def spec_G_imp_def)
  have "spec_hyb_new midpoint_rule (- 1) 100 [c] [spec_G_imp 100 0 [c] 0] 0 = 4"
    using d4 by (simp add: spec_hyb_new_def s spec_G_new_midpoint_rule spec_g_def)
  then show ?thesis
    by (simp add: spec_step_def)
qed

lemma get_hyb_fm_eq:
  "get_hyb_fm dblquad =
     1 / (2 * pi) ^ 2 *
       (bz_quad dblquad (\<lambda>kx ky. eps_k kx ky * eps_k kx ky) - bz_quad dblquad eps_k)"
  by (simp add: get_hyb_fm_def Let_def bz_quad_def)

lemma eps_k_squared_neq: "(\<lambda>kx ky. eps_k kx ky * eps_k kx ky) \<noteq> eps_k"
proof
  assume "(\<lambda>kx ky. eps_k kx ky * eps_k kx ky) = eps_k"
  then have "(\<lambda>kx ky. eps_k kx ky * eps_k kx ky) 0 0 = eps_k 0 0"
    by (rule arg_cong)
  then show False
    by (simp add: eps_k_def)
qed

section \<open>The error paths of the first loop of the self-consistency\<close>

lemma extract_self_energy_ZeroDivisionError:
  assumes "beta model = 0" and "g \<noteq> []"
  shows "extract_self_energy model g = Inl ZeroDivisionError"
proof -
  have "[0 ..< length g] = [] @ 0 # [Suc 0 ..< length g]"
    using assms(2) by (simp add: upt_conv_Cons)
  then show ?thesis
    unfolding extract_self_energy_def Let_def
    by (simp only: ) (rule for_range_first_error, simp_all add: iwn_def assms(1))
qed

lemma extract_self_energy_IndexError:
  assumes "beta model \<noteq> 0" and "length (hyb model) < length g"
  shows "extract_self_energy model g = Inl IndexError"
proof -
  let ?L = "length (hyb model)"
  have "[0 ..< length g] = [0 ..< ?L] @ ?L # [Suc ?L ..< length g]"
    using assms(2) by (metis less_imp_add_positive upt_add_eq_append upt_conv_Cons zero_le add.commute add_0)
  then show ?thesis
    unfolding extract_self_energy_def Let_def
    by (simp only: )
       (rule for_range_first_error
          [where f = "\<lambda>n. spec_iw (beta model) n - hyb model ! n - 1 / g ! n"],
        simp_all add: iwn_ok [OF assms(1)])
qed

section \<open>The self-consistency step\<close>

text \<open>
  C1. For a model with \<open>beta > 0\<close> and a hybridization of length \<open>N\<close>, and an
  impurity Green's function of length \<open>N\<close> with no zero entry, \<open>run_selfconsistency\<close>
  returns a sequence of length \<open>N\<close>. At every index \<open>n < N\<close> the extracted self-energy
  is \<open>i omega_n - hyb[n] - 1/G_imp[n]\<close>, the lattice Green's function is
  \<open>1/(2 pi)^2\<close> times the quadrature of the real part plus \<open>i\<close> times the quadrature
  of the imaginary part of \<open>1/(i omega_n - eps(kx, ky) - Sigma[n])\<close> over the Brillouin
  zone, and the result is \<open>i omega_n - 1/G_new[n] - Sigma[n]\<close>, where
  \<open>i omega_n = i (2n+1) pi / beta\<close>. The quadrature is any function. The quotients are
  those of HOL where a divisor is zero.
\<close>

theorem run_selfconsistency_spec:
  assumes "0 < beta model" and "length (hyb model) = N" and "length G_imp = N"
      and "\<forall>n<N. G_imp ! n \<noteq> 0"
  shows "\<exists>Sigma G_new hyb_new.
           extract_self_energy model G_imp = Inr Sigma
         \<and> lattice_green_impurity dblquad model G_imp Sigma = Inr G_new
         \<and> run_selfconsistency dblquad model G_imp = Inr hyb_new
         \<and> length Sigma = N \<and> length G_new = N \<and> length hyb_new = N
         \<and> (\<forall>n<N.
               Sigma ! n = spec_iw (beta model) n - hyb model ! n - 1 / G_imp ! n
             \<and> G_new ! n =
                 complex_of_real (1 / (2 * pi) ^ 2) *
                 (complex_of_real (bz_quad dblquad (\<lambda>kx ky.
                    Re (1 / (spec_iw (beta model) n - complex_of_real (Model_eps_k model kx ky) - Sigma ! n))))
                  + \<i> * complex_of_real (bz_quad dblquad (\<lambda>kx ky.
                    Im (1 / (spec_iw (beta model) n - complex_of_real (Model_eps_k model kx ky) - Sigma ! n)))))
             \<and> hyb_new ! n = spec_iw (beta model) n - 1 / G_new ! n - Sigma ! n)
         \<and> (\<forall>n. spec_iw (beta model) n = \<i> * complex_of_real ((2 * real n + 1) * pi / beta model))"
proof -
  have b: "beta model \<noteq> 0"
    using assms(1) by simp
  have l: "length G_imp \<le> length (hyb model)"
    using assms(2,3) by simp
  let ?S = "map (spec_Sigma (beta model) (hyb model) G_imp) [0 ..< N]"
  let ?G = "map (\<lambda>n. spec_G_new dblquad (t model) (beta model) (?S ! n) n) [0 ..< N]"
  let ?H = "map (spec_hyb_new dblquad (t model) (beta model) (hyb model) G_imp) [0 ..< N]"
  have 1: "extract_self_energy model G_imp = Inr ?S"
    using extract_self_energy_eq [OF b l] assms(3) by simp
  have 2: "lattice_green_impurity dblquad model G_imp ?S = Inr ?G"
    using lattice_green_impurity_eq [of dblquad model G_imp ?S] assms(3) by simp
  have 3: "run_selfconsistency dblquad model G_imp = Inr ?H"
    using run_selfconsistency_eq [OF b l] assms(3) by simp
  have 4: "\<forall>n<N. ?S ! n = spec_iw (beta model) n - hyb model ! n - 1 / G_imp ! n"
    by (simp add: spec_Sigma_def)
  have 5: "\<forall>n<N. ?G ! n =
                 complex_of_real (1 / (2 * pi) ^ 2) *
                 (complex_of_real (bz_quad dblquad (\<lambda>kx ky.
                    Re (1 / (spec_iw (beta model) n - complex_of_real (Model_eps_k model kx ky) - ?S ! n))))
                  + \<i> * complex_of_real (bz_quad dblquad (\<lambda>kx ky.
                    Im (1 / (spec_iw (beta model) n - complex_of_real (Model_eps_k model kx ky) - ?S ! n)))))"
    by (simp add: spec_G_new_def spec_g_def Model_eps_k_def)
  have 6: "\<forall>n<N. ?H ! n = spec_iw (beta model) n - 1 / ?G ! n - ?S ! n"
    by (simp add: spec_hyb_new_def)
  have 7: "\<forall>n. spec_iw (beta model) n = \<i> * complex_of_real ((2 * real n + 1) * pi / beta model)"
    by (simp add: spec_iw_def)
  show ?thesis
    apply (rule exI [of _ ?S], rule exI [of _ ?G], rule exI [of _ ?H])
    using 1 2 3 4 5 6 7 by simp
qed

text \<open>
  At \<open>t = -1\<close>, \<open>beta = 100\<close>, \<open>U = 0\<close>, the hybridization \<open>[0]\<close> and the impurity
  Green's function \<open>[-i]\<close>, with the midpoint rule, the step returns \<open>[4]\<close>.
\<close>

theorem run_selfconsistency_spec_witness:
  "0 < beta \<lparr>t = - 1, beta = 100, U = 0, hyb = [0]\<rparr>
   \<and> length (hyb \<lparr>t = - 1, beta = 100, U = 0, hyb = [0]\<rparr>) = 1
   \<and> length [- \<i>] = 1
   \<and> [- \<i>] ! 0 \<noteq> 0
   \<and> extract_self_energy \<lparr>t = - 1, beta = 100, U = 0, hyb = [0]\<rparr> [- \<i>]
       = Inr [\<i> * complex_of_real (pi / 100) - \<i>]
   \<and> run_selfconsistency midpoint_rule \<lparr>t = - 1, beta = 100, U = 0, hyb = [0]\<rparr> [- \<i>] = Inr [4]"
proof -
  let ?m = "\<lparr>t = - 1, beta = 100, U = 0, hyb = [0]\<rparr>"
  have b: "0 < beta ?m" and l: "length (hyb ?m) = 1" and lg: "length [- \<i>] = 1"
    and nz: "\<forall>n<1. [- \<i>] ! n \<noteq> 0"
    by simp_all
  from run_selfconsistency_spec [OF b l lg nz, of midpoint_rule] obtain S G H where
    S: "extract_self_energy ?m [- \<i>] = Inr S" and
    H: "run_selfconsistency midpoint_rule ?m [- \<i>] = Inr H" and
    lens: "length S = 1" "length G = 1" "length H = 1" and
    S0: "S ! 0 = spec_iw (beta ?m) 0 - hyb ?m ! 0 - 1 / [- \<i>] ! 0" and
    G0: "G ! 0 = complex_of_real (1 / (2 * pi) ^ 2) *
                 (complex_of_real (bz_quad midpoint_rule (\<lambda>kx ky.
                    Re (1 / (spec_iw (beta ?m) 0 - complex_of_real (Model_eps_k ?m kx ky) - S ! 0))))
                  + \<i> * complex_of_real (bz_quad midpoint_rule (\<lambda>kx ky.
                    Im (1 / (spec_iw (beta ?m) 0 - complex_of_real (Model_eps_k ?m kx ky) - S ! 0)))))" and
    H0: "H ! 0 = spec_iw (beta ?m) 0 - 1 / G ! 0 - S ! 0"
    by auto
  have S0': "S ! 0 = spec_iw 100 0 - \<i>"
    using S0 by simp
  have "G ! 0 = spec_G_new midpoint_rule (- 1) 100 (S ! 0) 0"
    unfolding G0 by (simp add: spec_G_new_def spec_g_def Model_eps_k_def)
  then have G0': "G ! 0 = 1 / (\<i> - 4)"
    by (simp add: spec_G_new_midpoint_rule spec_g_def S0')
  have "H ! 0 = 4"
    unfolding H0 using i_minus_4_nonzero by (simp add: G0' S0')
  then have "H = [4]"
    using singleton_list [OF lens(3)] by simp
  moreover have "S = [\<i> * complex_of_real (pi / 100) - \<i>]"
    using singleton_list [OF lens(1)] S0' by (simp add: spec_iw_def)
  ultimately show ?thesis
    using S H by simp
qed

section \<open>The impurity solver\<close>

text \<open>
  C2. For a model with \<open>beta > 0\<close> and a hybridization of length \<open>N\<close>,
  \<open>ImpuritySolver.solve\<close> returns a sequence of length \<open>N\<close> whose entry \<open>n\<close> is
  \<open>1/(i omega_n - hyb[n] - U/2)\<close> with \<open>i omega_n = i (2n+1) pi / beta\<close>: the self-energy
  is the constant \<open>U/2\<close>. Where the denominator is not zero the entry is its inverse;
  where it is zero the quotient written here is that of HOL.
\<close>

theorem ImpuritySolver_solve_spec:
  assumes "0 < beta model" and "length (hyb model) = N"
  shows "\<exists>G_imp. ImpuritySolver_solve model = Inr G_imp \<and> length G_imp = N \<and>
           (\<forall>n<N. G_imp ! n =
              1 / (\<i> * complex_of_real ((2 * real n + 1) * pi / beta model)
                   - hyb model ! n - complex_of_real (U model / 2))) \<and>
           (\<forall>n<N. \<i> * complex_of_real ((2 * real n + 1) * pi / beta model)
                   - hyb model ! n - complex_of_real (U model / 2) \<noteq> 0 \<longrightarrow>
              G_imp ! n * (\<i> * complex_of_real ((2 * real n + 1) * pi / beta model)
                   - hyb model ! n - complex_of_real (U model / 2)) = 1)"
proof -
  have "beta model \<noteq> 0"
    using assms(1) by simp
  then have "ImpuritySolver_solve model =
      Inr (map (spec_G_imp (beta model) (U model) (hyb model)) [0 ..< N])"
    using solve_eq assms(2) by simp
  then show ?thesis
    by (simp add: spec_G_imp_def spec_iw_def)
qed

theorem ImpuritySolver_solve_spec_witness:
  "0 < beta \<lparr>t = - 1, beta = 100, U = 0, hyb = [0, 0]\<rparr>
   \<and> length (hyb \<lparr>t = - 1, beta = 100, U = 0, hyb = [0, 0]\<rparr>) = 2
   \<and> ImpuritySolver_solve \<lparr>t = - 1, beta = 100, U = 0, hyb = [0, 0]\<rparr>
       = Inr [1 / (\<i> * complex_of_real (pi / 100)), 1 / (\<i> * complex_of_real (3 * pi / 100))]"
proof -
  let ?m = "\<lparr>t = - 1, beta = 100, U = 0, hyb = [0, 0]\<rparr>"
  have b: "0 < beta ?m" and l: "length (hyb ?m) = 2"
    by simp_all
  from ImpuritySolver_solve_spec [OF b l] obtain G where
    G: "ImpuritySolver_solve ?m = Inr G" and len: "length G = 2" and
    v: "\<forall>n<2. G ! n = 1 / (\<i> * complex_of_real ((2 * real n + 1) * pi / beta ?m)
                   - hyb ?m ! n - complex_of_real (U ?m / 2))"
    by blast
  from v have "G ! 0 = 1 / (\<i> * complex_of_real (pi / 100))"
    by simp
  moreover from v have "G ! 1 = 1 / (\<i> * complex_of_real (3 * pi / 100))"
    by (simp add: )
  moreover from len obtain a b where "G = [a, b]"
    by (metis (no_types, opaque_lifting) length_0_conv length_Suc_conv numeral_2_eq_2)
  ultimately have "G = [1 / (\<i> * complex_of_real (pi / 100)), 1 / (\<i> * complex_of_real (3 * pi / 100))]"
    by simp
  with G show ?thesis
    by simp
qed

section \<open>The driver loop\<close>

text \<open>
  C3. The driver starts from the zero hybridization of length \<open>n_freq\<close> and runs its
  cycle (the model of the current hybridization, the impurity solver, the
  self-consistency step) \<open>iter_max\<close> times: for \<open>beta > 0\<close> no cycle fails, each is the
  one-step map \<open>spec_step\<close>, and the driver returns the frequencies
  \<open>(2n+1) pi / beta\<close>, \<open>n < n_freq\<close>, with the \<open>iter_max\<close>-fold iterate of the one-step
  map on the zero sequence, both of length \<open>n_freq\<close>. \<open>main\<close> is the driver at
  \<open>n_freq = 200\<close>, \<open>t = -1\<close>, \<open>beta = 100\<close>, \<open>U = 0\<close>, \<open>iter_max = 5\<close>.
\<close>

theorem run_main_spec:
  assumes "0 < beta0"
  shows "run_main dblquad n_freq t0 beta0 U0 iter_max =
           Inr (map (\<lambda>n. (2 * real n + 1) * pi / beta0) [0 ..< n_freq],
                (spec_step dblquad t0 beta0 U0 ^^ iter_max) (replicate n_freq 0))
       \<and> length (map (\<lambda>n. (2 * real n + 1) * pi / beta0) [0 ..< n_freq]) = n_freq
       \<and> length ((spec_step dblquad t0 beta0 U0 ^^ iter_max) (replicate n_freq 0)) = n_freq
       \<and> main_loop dblquad t0 beta0 U0 iter_max (replicate n_freq 0) =
           Inr ((spec_step dblquad t0 beta0 U0 ^^ iter_max) (replicate n_freq 0))
       \<and> (\<forall>h. dmft_iteration dblquad t0 beta0 U0 h = Inr (spec_step dblquad t0 beta0 U0 h))
       \<and> (\<forall>h. \<exists>G_imp. ImpuritySolver_solve \<lparr>t = t0, beta = beta0, U = U0, hyb = h\<rparr> = Inr G_imp
              \<and> run_selfconsistency dblquad \<lparr>t = t0, beta = beta0, U = U0, hyb = h\<rparr> G_imp
                  = Inr (spec_step dblquad t0 beta0 U0 h))
       \<and> main dblquad =
           Inr (map (\<lambda>n. (2 * real n + 1) * pi / 100) [0 ..< 200],
                (spec_step dblquad (- 1) 100 0 ^^ 5) (replicate 200 0))"
proof -
  have b: "beta0 \<noteq> 0"
    using assms by simp
  have "\<exists>G_imp. ImpuritySolver_solve \<lparr>t = t0, beta = beta0, U = U0, hyb = h\<rparr> = Inr G_imp
              \<and> run_selfconsistency dblquad \<lparr>t = t0, beta = beta0, U = U0, hyb = h\<rparr> G_imp
                  = Inr (spec_step dblquad t0 beta0 U0 h)" for h
    using b by (simp add: solve_eq run_selfconsistency_eq spec_step_def)
  moreover have "main dblquad =
           Inr (map (\<lambda>n. (2 * real n + 1) * pi / 100) [0 ..< 200],
                (spec_step dblquad (- 1) 100 0 ^^ 5) (replicate 200 0))"
    unfolding main_def by (rule run_main_eq) simp
  ultimately show ?thesis
    by (simp add: run_main_eq [OF b] main_loop_eq [OF b] dmft_iteration_eq [OF b]
          length_spec_step_funpow)
qed

text \<open>
  With the midpoint rule, one frequency and two iterations the driver returns the
  frequency \<open>pi/100\<close> and the hybridization \<open>[4]\<close>.
\<close>

theorem run_main_spec_witness:
  "(0 :: real) < 100
   \<and> run_main midpoint_rule 1 (- 1) 100 0 2 = Inr ([pi / 100], [4])"
proof -
  have b: "(0 :: real) < 100"
    by simp
  have "(spec_step midpoint_rule (- 1) 100 0 ^^ 2) (replicate 1 0) = [4]"
    by (simp add: numeral_2_eq_2 spec_step_midpoint_example)
  then show ?thesis
    using run_main_spec [OF b, of midpoint_rule 1 "- 1" 0 2] by simp
qed

section \<open>The extracted self-energy is the Hartree value\<close>

text \<open>
  C4. For a model with \<open>beta > 0\<close> whose denominators \<open>i omega_n - hyb[n] - U/2\<close> are
  all nonzero, the self-energy that the self-consistency step extracts from the output
  of \<open>ImpuritySolver.solve\<close> is \<open>U/2\<close> at every index, in exact complex arithmetic.
\<close>

theorem self_energy_recovers_hartree:
  assumes "0 < beta model"
      and "\<forall>n < length (hyb model).
             spec_iw (beta model) n - hyb model ! n - complex_of_real (U model / 2) \<noteq> 0"
  shows "\<exists>G_imp. ImpuritySolver_solve model = Inr G_imp
           \<and> extract_self_energy model G_imp
               = Inr (replicate (length (hyb model)) (complex_of_real (U model / 2)))"
proof -
  let ?N = "length (hyb model)"
  let ?G = "map (spec_G_imp (beta model) (U model) (hyb model)) [0 ..< ?N]"
  have b: "beta model \<noteq> 0"
    using assms(1) by simp
  have 1: "ImpuritySolver_solve model = Inr ?G"
    by (rule solve_eq [OF b])
  have "extract_self_energy model ?G = Inr (map (spec_Sigma (beta model) (hyb model) ?G) [0 ..< ?N])"
    using extract_self_energy_eq [OF b, of ?G] by simp
  moreover have "map (spec_Sigma (beta model) (hyb model) ?G) [0 ..< ?N]
                 = replicate ?N (complex_of_real (U model / 2))"
  proof (rule nth_equalityI)
    show "length (map (spec_Sigma (beta model) (hyb model) ?G) [0 ..< ?N])
          = length (replicate ?N (complex_of_real (U model / 2)))"
      by simp
  next
    fix n
    assume "n < length (map (spec_Sigma (beta model) (hyb model) ?G) [0 ..< ?N])"
    then have n: "n < ?N"
      by simp
    then have "spec_iw (beta model) n - hyb model ! n - complex_of_real (U model / 2) \<noteq> 0"
      using assms(2) by blast
    then have "spec_Sigma (beta model) (hyb model) ?G n = complex_of_real (U model / 2)"
      using n by (simp add: spec_Sigma_def spec_G_imp_def)
    then show "map (spec_Sigma (beta model) (hyb model) ?G) [0 ..< ?N] ! n
               = replicate ?N (complex_of_real (U model / 2)) ! n"
      using n by simp
  qed
  ultimately show ?thesis
    using 1 by simp
qed

theorem self_energy_recovers_hartree_witness:
  "0 < beta \<lparr>t = - 1, beta = 100, U = 4, hyb = [0]\<rparr>
   \<and> spec_iw 100 0 - [0] ! 0 - complex_of_real (4 / 2) \<noteq> 0
   \<and> (\<exists>G_imp. ImpuritySolver_solve \<lparr>t = - 1, beta = 100, U = 4, hyb = [0]\<rparr> = Inr G_imp
        \<and> extract_self_energy \<lparr>t = - 1, beta = 100, U = 4, hyb = [0]\<rparr> G_imp = Inr [2])"
proof -
  let ?m = "\<lparr>t = - 1, beta = 100, U = 4, hyb = [0]\<rparr>"
  have nz: "spec_iw 100 0 - [0] ! 0 - complex_of_real (4 / 2) \<noteq> 0"
  proof
    assume "spec_iw 100 0 - [0] ! 0 - complex_of_real (4 / 2) = 0"
    then have "Im (spec_iw 100 0 - [0] ! 0 - complex_of_real (4 / 2)) = 0"
      by simp
    then show False
      by (simp add: Im_spec_iw)
  qed
  have b: "0 < beta ?m"
    by simp
  have h: "\<forall>n < length (hyb ?m). spec_iw (beta ?m) n - hyb ?m ! n - complex_of_real (U ?m / 2) \<noteq> 0"
    using nz by simp
  show ?thesis
    using self_energy_recovers_hartree [OF b h] nz by simp
qed

section \<open>The denominator of the impurity solver\<close>

text \<open>
  C5, as stated, fails: the denominator \<open>i omega_n - hyb[n] - U/2\<close> is zero for a complex
  hybridization whose entry is \<open>i omega_n - U/2\<close>. At \<open>beta = pi\<close>, \<open>U = 0\<close> and the
  hybridization \<open>[i]\<close>, \<open>i omega_0 = i\<close> and the denominator at index \<open>0\<close> is \<open>0\<close>.
\<close>

theorem solve_denominator_can_vanish:
  "0 < beta \<lparr>t = - 1, beta = pi, U = 0, hyb = [\<i>]\<rparr>
   \<and> iwn (beta \<lparr>t = - 1, beta = pi, U = 0, hyb = [\<i>]\<rparr>) 0 = Inr \<i>
   \<and> \<i> - hyb \<lparr>t = - 1, beta = pi, U = 0, hyb = [\<i>]\<rparr> ! 0
        - complex_of_real (U \<lparr>t = - 1, beta = pi, U = 0, hyb = [\<i>]\<rparr> / 2) = 0"
  by (simp add: iwn_def iwn_val_def)

text \<open>
  C5, amended. For a model with \<open>beta > 0\<close>, \<open>ImpuritySolver.solve\<close> has no error path:
  it returns a sequence of the length of the hybridization. The denominator
  \<open>i omega_n - hyb[n] - U/2\<close> is zero exactly when \<open>hyb[n] = i omega_n - U/2\<close>; it is
  nonzero, and \<open>G_imp[n]\<close> is its inverse, at every index where the imaginary part of
  \<open>hyb[n]\<close> differs from \<open>omega_n = (2n+1) pi / beta\<close>, as it does for a real
  \<open>hyb[n]\<close> such as the zero start.
\<close>

theorem solve_denominator_nonzero:
  assumes "0 < beta model" and "n < length (hyb model)"
  shows "\<exists>G_imp. ImpuritySolver_solve model = Inr G_imp
           \<and> length G_imp = length (hyb model)
           \<and> (spec_iw (beta model) n - hyb model ! n - complex_of_real (U model / 2) = 0
                \<longleftrightarrow> hyb model ! n = spec_iw (beta model) n - complex_of_real (U model / 2))
           \<and> (Im (hyb model ! n) \<noteq> (2 * real n + 1) * pi / beta model \<longrightarrow>
                spec_iw (beta model) n - hyb model ! n - complex_of_real (U model / 2) \<noteq> 0
                \<and> G_imp ! n * (spec_iw (beta model) n - hyb model ! n - complex_of_real (U model / 2)) = 1)"
proof -
  let ?d = "spec_iw (beta model) n - hyb model ! n - complex_of_real (U model / 2)"
  let ?G = "map (spec_G_imp (beta model) (U model) (hyb model)) [0 ..< length (hyb model)]"
  have b: "beta model \<noteq> 0"
    using assms(1) by simp
  have 1: "ImpuritySolver_solve model = Inr ?G"
    by (rule solve_eq [OF b])
  have 2: "?d = 0 \<longleftrightarrow> hyb model ! n = spec_iw (beta model) n - complex_of_real (U model / 2)"
    by (auto simp: algebra_simps)
  have 3: "?d \<noteq> 0" if "Im (hyb model ! n) \<noteq> (2 * real n + 1) * pi / beta model"
  proof
    assume "?d = 0"
    then have "Im ?d = Im 0" by (rule arg_cong)
    then show False
      using that by (simp add: Im_spec_iw)
  qed
  have 4: "?G ! n * ?d = 1" if "?d \<noteq> 0"
    using that assms(2) by (simp add: spec_G_imp_def)
  show ?thesis
    apply (rule exI [of _ ?G])
    using 1 2 3 4 by simp
qed

theorem solve_denominator_nonzero_witness:
  "0 < beta \<lparr>t = - 1, beta = 100, U = 0, hyb = [0]\<rparr>
   \<and> 0 < length (hyb \<lparr>t = - 1, beta = 100, U = 0, hyb = [0]\<rparr>)
   \<and> Im (hyb \<lparr>t = - 1, beta = 100, U = 0, hyb = [0]\<rparr> ! 0) \<noteq> (2 * real 0 + 1) * pi / 100
   \<and> spec_iw 100 0 - [0] ! 0 - complex_of_real (0 / 2) \<noteq> 0
   \<and> (\<exists>G_imp. ImpuritySolver_solve \<lparr>t = - 1, beta = 100, U = 0, hyb = [0]\<rparr> = Inr G_imp
         \<and> length G_imp = 1
         \<and> G_imp ! 0 * (spec_iw 100 0 - [0] ! 0 - complex_of_real (0 / 2)) = 1)"
proof -
  let ?m = "\<lparr>t = - 1, beta = 100, U = 0, hyb = [0]\<rparr>"
  have b: "0 < beta ?m" and n: "0 < length (hyb ?m)"
    by simp_all
  show ?thesis
    using solve_denominator_nonzero [OF b n] by auto
qed

section \<open>The errors of the self-consistency step\<close>

text \<open>
  C6, as stated, fails: the inversions \<open>1.0/self.green_impurity[n]\<close> and
  \<open>1.0/green_impurity_new[n]\<close> divide by an element of a numpy array of dtype complex,
  and that division does not raise. With the impurity Green's function \<open>[0]\<close> the step
  returns a sequence of length one, and so it does when the quadrature returns \<open>0\<close>
  and the lattice Green's function is \<open>[0]\<close>. (The entries of the returned sequence at
  such an index are non-finite in the program; the model does not give them.)
\<close>

theorem zero_green_impurity_does_not_raise:
  "[0 :: complex] ! 0 = 0
   \<and> (\<exists>hyb_new. run_selfconsistency midpoint_rule \<lparr>t = - 1, beta = 100, U = 0, hyb = [0]\<rparr> [0]
          = Inr hyb_new \<and> length hyb_new = 1)
   \<and> (\<forall>e. run_selfconsistency midpoint_rule \<lparr>t = - 1, beta = 100, U = 0, hyb = [0]\<rparr> [0] \<noteq> Inl e)
   \<and> lattice_green_impurity (\<lambda>func a b gfun hfun. 0) \<lparr>t = - 1, beta = 100, U = 0, hyb = [0]\<rparr>
        [1] [0] = Inr [0]
   \<and> (\<forall>e. run_selfconsistency (\<lambda>func a b gfun hfun. 0) \<lparr>t = - 1, beta = 100, U = 0, hyb = [0]\<rparr> [1]
          \<noteq> Inl e)"
  by (simp add: run_selfconsistency_eq lattice_green_impurity_eq spec_G_new_def bz_quad_def)

text \<open>
  C6, amended. The step has no error path for a zero entry: whatever the entries of
  the impurity Green's function and whatever the quadrature returns, for \<open>beta \<noteq> 0\<close>
  and a hybridization at least as long as the impurity Green's function it returns a
  sequence of that length. Its errors are ZeroDivisionError, for \<open>beta = 0\<close> and a
  nonempty impurity Green's function, and IndexError, for a hybridization shorter than
  the impurity Green's function; neither is caught, and the step then returns no
  sequence.
\<close>

theorem run_selfconsistency_error_paths:
  "(G_imp = [] \<longrightarrow> run_selfconsistency dblquad model G_imp = Inr [])
   \<and> (G_imp \<noteq> [] \<and> beta model = 0 \<longrightarrow>
        run_selfconsistency dblquad model G_imp = Inl ZeroDivisionError)
   \<and> (beta model \<noteq> 0 \<and> length (hyb model) < length G_imp \<longrightarrow>
        run_selfconsistency dblquad model G_imp = Inl IndexError)
   \<and> (beta model \<noteq> 0 \<and> length G_imp \<le> length (hyb model) \<longrightarrow>
        (\<exists>hyb_new. run_selfconsistency dblquad model G_imp = Inr hyb_new
           \<and> length hyb_new = length G_imp))"
proof (intro conjI impI)
  assume "G_imp = []"
  then show "run_selfconsistency dblquad model G_imp = Inr []"
    by (simp add: run_selfconsistency_def extract_self_energy_def lattice_green_impurity_def
          extract_hyb_def)
next
  assume "G_imp \<noteq> [] \<and> beta model = 0"
  then show "run_selfconsistency dblquad model G_imp = Inl ZeroDivisionError"
    by (simp add: run_selfconsistency_def extract_self_energy_ZeroDivisionError)
next
  assume "beta model \<noteq> 0 \<and> length (hyb model) < length G_imp"
  then show "run_selfconsistency dblquad model G_imp = Inl IndexError"
    by (simp add: run_selfconsistency_def extract_self_energy_IndexError)
next
  assume "beta model \<noteq> 0 \<and> length G_imp \<le> length (hyb model)"
  then show "\<exists>hyb_new. run_selfconsistency dblquad model G_imp = Inr hyb_new
           \<and> length hyb_new = length G_imp"
    by (simp add: run_selfconsistency_eq)
qed

theorem run_selfconsistency_error_paths_witness:
  "(\<exists>hyb_new. run_selfconsistency midpoint_rule \<lparr>t = - 1, beta = 100, U = 0, hyb = [0, 0]\<rparr> [0, 1]
        = Inr hyb_new \<and> length hyb_new = 2)
   \<and> run_selfconsistency midpoint_rule \<lparr>t = - 1, beta = 100, U = 0, hyb = [0]\<rparr> [] = Inr []
   \<and> run_selfconsistency midpoint_rule \<lparr>t = - 1, beta = 0, U = 0, hyb = [0]\<rparr> [1]
        = Inl ZeroDivisionError
   \<and> run_selfconsistency midpoint_rule \<lparr>t = - 1, beta = 100, U = 0, hyb = []\<rparr> [1]
        = Inl IndexError"
  using run_selfconsistency_error_paths
          [of "[0, 1]" midpoint_rule "\<lparr>t = - 1, beta = 100, U = 0, hyb = [0, 0]\<rparr>"]
        run_selfconsistency_error_paths
          [of "[]" midpoint_rule "\<lparr>t = - 1, beta = 100, U = 0, hyb = [0]\<rparr>"]
        run_selfconsistency_error_paths
          [of "[1]" midpoint_rule "\<lparr>t = - 1, beta = 0, U = 0, hyb = [0]\<rparr>"]
        run_selfconsistency_error_paths
          [of "[1]" midpoint_rule "\<lparr>t = - 1, beta = 100, U = 0, hyb = []\<rparr>"]
  by auto

section \<open>Lengths\<close>

text \<open>
  C7. With \<open>beta > 0\<close>, every operation keeps the length \<open>N\<close>: the impurity solver
  returns \<open>N\<close> entries for a hybridization of length \<open>N\<close>; on inputs of length \<open>N\<close> the
  self-energy, the lattice Green's function and the hybridization of the
  self-consistency step have length \<open>N\<close>; the hybridization after any number of
  iterations of the driver, its final hybridization and its frequency grid have
  length \<open>N = n_freq\<close>.
\<close>

theorem lengths_preserved:
  assumes "0 < beta model" and "length (hyb model) = N" and "length G_imp = N" and "0 < beta0"
  shows "(\<exists>g. ImpuritySolver_solve model = Inr g \<and> length g = N)
       \<and> (\<exists>Sigma G_new hyb_new.
              extract_self_energy model G_imp = Inr Sigma \<and> length Sigma = N
            \<and> lattice_green_impurity dblquad model G_imp Sigma = Inr G_new \<and> length G_new = N
            \<and> run_selfconsistency dblquad model G_imp = Inr hyb_new \<and> length hyb_new = N)
       \<and> (\<exists>h. main_loop dblquad t0 beta0 U0 ii (replicate N 0) = Inr h \<and> length h = N)
       \<and> (\<exists>frequencies hyb_final.
              run_main dblquad N t0 beta0 U0 iter_max = Inr (frequencies, hyb_final)
            \<and> length frequencies = N \<and> length hyb_final = N)"
proof -
  have b: "beta model \<noteq> 0" and b0: "beta0 \<noteq> 0"
    using assms(1,4) by simp_all
  have l: "length G_imp \<le> length (hyb model)"
    using assms(2,3) by simp
  have 1: "\<exists>g. ImpuritySolver_solve model = Inr g \<and> length g = N"
    using solve_eq [OF b] assms(2) by simp
  have 2: "\<exists>Sigma G_new hyb_new.
              extract_self_energy model G_imp = Inr Sigma \<and> length Sigma = N
            \<and> lattice_green_impurity dblquad model G_imp Sigma = Inr G_new \<and> length G_new = N
            \<and> run_selfconsistency dblquad model G_imp = Inr hyb_new \<and> length hyb_new = N"
    using extract_self_energy_eq [OF b l] run_selfconsistency_eq [OF b l] assms(3)
    by (simp add: lattice_green_impurity_eq)
  have 3: "\<exists>h. main_loop dblquad t0 beta0 U0 ii (replicate N 0) = Inr h \<and> length h = N"
    by (simp add: main_loop_eq [OF b0] length_spec_step_funpow)
  have 4: "\<exists>frequencies hyb_final.
              run_main dblquad N t0 beta0 U0 iter_max = Inr (frequencies, hyb_final)
            \<and> length frequencies = N \<and> length hyb_final = N"
    by (simp add: run_main_eq [OF b0] length_spec_step_funpow)
  show ?thesis
    using 1 2 3 4 by blast
qed

theorem lengths_preserved_witness:
  "0 < beta \<lparr>t = - 1, beta = 100, U = 4, hyb = [0, 0]\<rparr>
   \<and> length (hyb \<lparr>t = - 1, beta = 100, U = 4, hyb = [0, 0]\<rparr>) = 2
   \<and> length [1 :: complex, 1] = 2
   \<and> (0 :: real) < 100
   \<and> (\<exists>g. ImpuritySolver_solve \<lparr>t = - 1, beta = 100, U = 4, hyb = [0, 0]\<rparr> = Inr g \<and> length g = 2)
   \<and> (\<exists>hyb_new. run_selfconsistency midpoint_rule \<lparr>t = - 1, beta = 100, U = 4, hyb = [0, 0]\<rparr> [1, 1]
         = Inr hyb_new \<and> length hyb_new = 2)
   \<and> (\<exists>frequencies hyb_final. run_main midpoint_rule 2 (- 1) 100 4 5 = Inr (frequencies, hyb_final)
         \<and> length frequencies = 2 \<and> length hyb_final = 2)"
proof -
  let ?m = "\<lparr>t = - 1, beta = 100, U = 4, hyb = [0, 0]\<rparr>"
  have b: "0 < beta ?m" and l: "length (hyb ?m) = 2" and lg: "length [1 :: complex, 1] = 2"
    and b0: "(0 :: real) < 100"
    by simp_all
  show ?thesis
    using lengths_preserved [OF b l lg b0, of midpoint_rule "- 1" 4 0 5] by auto
qed

section \<open>Properties of the dispersion\<close>

text \<open>
  C8. For all real \<open>kx\<close>, \<open>ky\<close> and every hopping, \<open>Model.eps_k\<close> is
  \<open>-2 t (cos kx + cos ky)\<close>; at the four high-symmetry points its values are
  \<open>-4t\<close>, \<open>0\<close>, \<open>0\<close> and \<open>4t\<close>. The function is a total function of its three
  inputs: it has no error value.
\<close>

theorem Model_eps_k_values:
  "Model_eps_k model kx ky = - 2 * t model * (cos kx + cos ky)
   \<and> Model_eps_k model 0 0 = - 4 * t model
   \<and> Model_eps_k model pi 0 = 0
   \<and> Model_eps_k model 0 pi = 0
   \<and> Model_eps_k model pi pi = 4 * t model"
  by (simp add: Model_eps_k_def)

section \<open>The first moment under exact integration\<close>

text \<open>
  C9. The exact integral of the dispersion over the Brillouin zone is \<open>0\<close>, and only
  \<open>0\<close>, so its average is \<open>0\<close>; that of its square is \<open>16 pi^2\<close>. With a quadrature
  that is exact on these two integrands \<open>get_hyb_fm\<close> returns \<open>4\<close>, within any
  tolerance.
\<close>

theorem get_hyb_fm_exact:
  assumes "exact_on dblquad eps_k"
      and "exact_on dblquad (\<lambda>kx ky. eps_k kx ky * eps_k kx ky)"
  shows "bz_quad dblquad eps_k = 0
       \<and> 1 / (2 * pi) ^ 2 * bz_quad dblquad eps_k = 0
       \<and> bz_quad dblquad (\<lambda>kx ky. eps_k kx ky * eps_k kx ky) = 16 * pi ^ 2
       \<and> get_hyb_fm dblquad = 4
       \<and> \<bar>get_hyb_fm dblquad - 4\<bar> \<le> 1 / 10 ^ 6
       \<and> (double_integral_value eps_k (- pi) pi (\<lambda>kx. - pi) (\<lambda>kx. pi) v \<longleftrightarrow> v = 0)
       \<and> (double_integral_value (\<lambda>kx ky. eps_k kx ky * eps_k kx ky) (- pi) pi (\<lambda>kx. - pi) (\<lambda>kx. pi) w
            \<longleftrightarrow> w = 16 * pi ^ 2)"
proof -
  have 1: "bz_quad dblquad eps_k = 0"
    using assms(1) double_integral_eps_k double_integral_value_unique
    unfolding exact_on_def by blast
  have 2: "bz_quad dblquad (\<lambda>kx ky. eps_k kx ky * eps_k kx ky) = 16 * pi ^ 2"
    using assms(2) double_integral_eps_k_squared double_integral_value_unique
    unfolding exact_on_def by blast
  have 3: "get_hyb_fm dblquad = 4"
    by (simp add: get_hyb_fm_eq 1 2 power2_eq_square)
  have 4: "double_integral_value eps_k (- pi) pi (\<lambda>kx. - pi) (\<lambda>kx. pi) v \<longleftrightarrow> v = 0"
    using double_integral_eps_k double_integral_value_unique by blast
  have 5: "double_integral_value (\<lambda>kx ky. eps_k kx ky * eps_k kx ky) (- pi) pi (\<lambda>kx. - pi) (\<lambda>kx. pi) w
            \<longleftrightarrow> w = 16 * pi ^ 2"
    using double_integral_eps_k_squared double_integral_value_unique by blast
  show ?thesis
    using 1 2 3 4 5 by simp
qed

theorem get_hyb_fm_exact_witness:
  "exact_on (\<lambda>func a b gfun hfun. if func = eps_k then 0 else 16 * pi ^ 2) eps_k
   \<and> exact_on (\<lambda>func a b gfun hfun. if func = eps_k then 0 else 16 * pi ^ 2)
        (\<lambda>kx ky. eps_k kx ky * eps_k kx ky)
   \<and> get_hyb_fm (\<lambda>func a b gfun hfun. if func = eps_k then 0 else 16 * pi ^ 2) = 4"
proof -
  let ?q = "\<lambda>(func :: real \<Rightarrow> real \<Rightarrow> real) (a :: real) (b :: real) (gfun :: real \<Rightarrow> real)
              (hfun :: real \<Rightarrow> real). if func = eps_k then 0 else 16 * pi ^ 2"
  have 1: "exact_on ?q eps_k"
    unfolding exact_on_def bz_quad_def using double_integral_eps_k by simp
  have 2: "exact_on ?q (\<lambda>kx ky. eps_k kx ky * eps_k kx ky)"
    unfolding exact_on_def bz_quad_def
    using double_integral_eps_k_squared eps_k_squared_neq by simp
  show ?thesis
    using get_hyb_fm_exact [OF 1 2] 1 2 by simp
qed

section \<open>The two dispersion functions\<close>

text \<open>
  C10. The function \<open>eps_k\<close> of the module takes no hopping and returns
  \<open>-2 (cos kx + cos ky)\<close>. It is \<open>Model.eps_k\<close> at \<open>t = 1\<close> and its negative at
  \<open>t = -1\<close>; where \<open>cos kx + cos ky\<close> is not zero the two agree only for \<open>t = 1\<close>.
  \<open>get_hyb_fm\<close> has no model among its inputs: whatever the model, its result is the
  one computed with the dispersion of hopping \<open>1\<close>.
\<close>

theorem eps_k_is_unit_hopping:
  "eps_k kx ky = - 2 * (cos kx + cos ky)
   \<and> Model_eps_k \<lparr>t = 1, beta = b, U = u, hyb = h\<rparr> kx ky = eps_k kx ky
   \<and> Model_eps_k \<lparr>t = - 1, beta = b, U = u, hyb = h\<rparr> kx ky = - eps_k kx ky
   \<and> (cos kx + cos ky \<noteq> 0 \<longrightarrow> (Model_eps_k model kx ky = eps_k kx ky \<longleftrightarrow> t model = 1))
   \<and> ((\<forall>x y. Model_eps_k model x y = eps_k x y) \<longleftrightarrow> t model = 1)
   \<and> get_hyb_fm dblquad =
       1 / (2 * pi) ^ 2 *
         (bz_quad dblquad (\<lambda>x y. Model_eps_k (model\<lparr>t := 1\<rparr>) x y * Model_eps_k (model\<lparr>t := 1\<rparr>) x y)
          - bz_quad dblquad (Model_eps_k (model\<lparr>t := 1\<rparr>)))"
proof -
  have 1: "Model_eps_k model x y = eps_k x y \<longleftrightarrow> t model = 1" if "cos x + cos y \<noteq> 0" for x y
  proof -
    have "Model_eps_k model x y - eps_k x y = - 2 * (t model - 1) * (cos x + cos y)"
      by (simp add: Model_eps_k_def eps_k_def algebra_simps)
    then have "Model_eps_k model x y - eps_k x y = 0 \<longleftrightarrow> t model - 1 = 0"
      using that by simp
    then show ?thesis
      by simp
  qed
  have 2: "(\<forall>x y. Model_eps_k model x y = eps_k x y) \<longleftrightarrow> t model = 1"
  proof
    assume "\<forall>x y. Model_eps_k model x y = eps_k x y"
    then have "Model_eps_k model 0 0 = eps_k 0 0"
      by blast
    then show "t model = 1"
      by (simp add: Model_eps_k_def eps_k_def)
  next
    assume "t model = 1"
    then show "\<forall>x y. Model_eps_k model x y = eps_k x y"
      by (simp add: Model_eps_k_def eps_k_def)
  qed
  have 3: "Model_eps_k (model\<lparr>t := 1\<rparr>) = eps_k"
    by (intro ext) (simp add: Model_eps_k_def eps_k_def)
  have 4: "get_hyb_fm dblquad =
       1 / (2 * pi) ^ 2 *
         (bz_quad dblquad (\<lambda>x y. eps_k x y * eps_k x y) - bz_quad dblquad eps_k)"
    by (rule get_hyb_fm_eq)
  show ?thesis
    using 1 [of kx ky] 2 4 unfolding 3
    by (simp add: Model_eps_k_def eps_k_def)
qed

theorem eps_k_is_unit_hopping_witness:
  "cos 0 + cos 0 \<noteq> (0 :: real)
   \<and> (Model_eps_k \<lparr>t = - 1, beta = 100, U = 0, hyb = []\<rparr> 0 0 = eps_k 0 0
        \<longleftrightarrow> t \<lparr>t = - 1, beta = 100, U = 0, hyb = []\<rparr> = 1)
   \<and> Model_eps_k \<lparr>t = - 1, beta = 100, U = 0, hyb = []\<rparr> 0 0 = 4
   \<and> eps_k 0 0 = - 4"
  using eps_k_is_unit_hopping [of 0 0 100 0 "[]" "\<lparr>t = - 1, beta = 100, U = 0, hyb = []\<rparr>"]
  by (simp add: Model_eps_k_def)

end
